theory Spec2Isabelle
  imports Complex_Main "HOL-Library.AList"
begin

section \<open>The backtest example script (backtest.py)\<close>

text \<open>
  The repository slice holds one executable file, \<open>backtest.py\<close>: a script that loads its
  environment, imports the backtest engine behind a guard, fetches historical data and
  prints a report. The engine, its models and the sample strategy are imported from
  modules that are not part of the slice; the script is modelled on its own, with what it
  reads from the outside world collected in a record \<open>environment\<close>.
\<close>

subsection \<open>Values\<close>

text \<open>
  Python's \<open>Decimal\<close>: a finite value (kept as the rational it denotes; the exponent
  and the context's 28 digits of precision are not modelled) or one of the special values.
\<close>

datatype decimal = Fin rat | PosInf | NegInf | NaN

text \<open>The exceptions the script can meet, with the two class tests its handlers make.\<close>

datatype exc =
    ImportError
  | ModuleNotFoundError
  | KeyError string
  | InvalidOperation
  | OtherException string
  | KeyboardInterrupt
  | SystemExit int

text \<open>\<open>except ImportError\<close>: the class and its subclass.\<close>

fun is_ImportError :: "exc \<Rightarrow> bool" where
  "is_ImportError ImportError = True"
| "is_ImportError ModuleNotFoundError = True"
| "is_ImportError _ = False"

text \<open>\<open>except Exception\<close>: everything but the classes that derive from BaseException only.\<close>

fun is_Exception :: "exc \<Rightarrow> bool" where
  "is_Exception KeyboardInterrupt = False"
| "is_Exception (SystemExit _) = False"
| "is_Exception _ = True"

text \<open>
  \<open>value > 0\<close> on a Decimal: an ordering comparison with NaN signals InvalidOperation
  (trapped in the default context).
\<close>

fun decimal_gt_zero :: "decimal \<Rightarrow> exc + bool" where
  "decimal_gt_zero (Fin q) = Inr (0 < q)"
| "decimal_gt_zero PosInf = Inr True"
| "decimal_gt_zero NegInf = Inr False"
| "decimal_gt_zero NaN = Inl InvalidOperation"

text \<open>\<open>value * 100\<close> on a Decimal.\<close>

fun times_100 :: "decimal \<Rightarrow> decimal" where
  "times_100 (Fin q) = Fin (q * 100)"
| "times_100 PosInf = PosInf"
| "times_100 NegInf = NegInf"
| "times_100 NaN = NaN"

text \<open>Timestamps at day resolution: the proleptic Gregorian ordinal of the date.\<close>

type_synonym datetime = int

definition is_leap :: "int \<Rightarrow> bool" where
  "is_leap y = (y mod 4 = 0 \<and> (y mod 100 \<noteq> 0 \<or> y mod 400 = 0))"

definition days_before_year :: "int \<Rightarrow> int" where
  "days_before_year y = (y - 1) * 365 + (y - 1) div 4 - (y - 1) div 100 + (y - 1) div 400"

definition days_before_month :: "int \<Rightarrow> int \<Rightarrow> int" where
  "days_before_month y m =
     [0, 0, 31, 59, 90, 120, 151, 181, 212, 243, 273, 304, 334] ! nat m
     + (if 2 < m \<and> is_leap y then 1 else 0)"

text \<open>\<open>datetime(y, m, d, tzinfo=timezone.utc)\<close>, for a month in 1..12.\<close>

definition mk_datetime :: "int \<Rightarrow> int \<Rightarrow> int \<Rightarrow> datetime" where
  "mk_datetime y m d = days_before_year y + days_before_month y m + d"

subsection \<open>Printed text\<close>

text \<open>
  A printed or logged line is the sequence of the pieces of its f-string: literal text, and
  formatted fields kept symbolically with their format specification, so that no rounding
  or digit grouping is modelled.
\<close>

datatype frag =
    Lit string
  | Fmt string decimal
  | Num int
  | DateOf datetime
  | ExcStr exc

type_synonym line = "frag list"

text \<open>\<open>f"${value:,.2f}"\<close>\<close>

definition format_currency :: "decimal \<Rightarrow> line" where
  "format_currency v = [Lit ''$'', Fmt '',.2f'' v]"

text \<open>\<open>f"{value * 100:+.2f}%"\<close>\<close>

definition format_percentage :: "decimal \<Rightarrow> line" where
  "format_percentage v = [Fmt ''+.2f'' (times_100 v), Lit ''%'']"

definition py_bool :: "bool \<Rightarrow> string" where
  "py_bool b = (if b then ''True'' else ''False'')"

subsection \<open>The records the script reads and builds\<close>

text \<open>
  The classes BacktestConfig, Metrics, Trade and BacktestResult are declared in modules
  outside the slice; their fields are the ones the script passes or reads.
\<close>

record backtest_config =
  strategy_class :: string
  symbols :: "string list"
  start_date :: datetime
  end_date :: datetime
  initial_capital :: decimal
  commission :: decimal
  slippage_pct :: decimal
  risk_free_rate :: decimal
  cache_enabled :: bool

datatype exit_reason = signal_exit | stop_loss | take_profit | end_of_data

fun reason_str :: "exit_reason \<Rightarrow> string" where
  "reason_str signal_exit = ''signal_exit''"
| "reason_str stop_loss = ''stop_loss''"
| "reason_str take_profit = ''take_profit''"
| "reason_str end_of_data = ''end_of_data''"

record trade =
  symbol :: string
  entry_date :: datetime
  entry_price :: decimal
  exit_date :: datetime
  exit_price :: decimal
  shares :: int
  pnl :: decimal
  pnl_pct :: decimal
  duration_days :: int
  exit_reason :: exit_reason

record metrics =
  total_return :: decimal
  annualized_return :: decimal
  cagr :: decimal
  win_rate :: decimal
  profit_factor :: decimal
  max_drawdown :: decimal
  sharpe_ratio :: decimal
  total_trades :: nat
  winning_trades :: nat
  losing_trades :: nat
  average_win :: decimal
  average_loss :: decimal

record equity_point =
  ep_timestamp :: datetime
  equity :: rat

record backtest_result =
  metrics :: metrics
  trades :: "trade list"
  equity_curve :: "equity_point list"
  data_warnings :: "line list"
  execution_time_seconds :: decimal

text \<open>A pandas DataFrame, as far as the script looks at it: column names and rows.\<close>

record dataframe =
  columns :: "string list"
  rows :: "rat list list"

subsection \<open>The outside world\<close>

record environment =
  env_path :: string
  load_dotenv :: bool
  import_deps :: "exc option"
  import_engine :: "exc option"
  run_as_main :: bool
  getenv :: "string \<Rightarrow> string option"
  yf_history :: "string \<Rightarrow> string \<Rightarrow> string \<Rightarrow> exc + dataframe"
  engine_run :: "backtest_config \<Rightarrow> dataframe \<Rightarrow> exc + backtest_result"

text \<open>What a run leaves behind, in order.\<close>

datatype event =
    Print line
  | LogInfo line
  | LogError line
  | NewConfig backtest_config
  | NewEngine
  | EngineRun

subsection \<open>fetch\_historical\_data\<close>

definition lower_char :: "char \<Rightarrow> char" where
  "lower_char c =
     (let n = (of_char c :: nat) in if 65 \<le> n \<and> n \<le> 90 then char_of (n + 32) else c)"

definition fetch_historical_data ::
  "environment \<Rightarrow> string \<Rightarrow> string \<Rightarrow> event list \<times> (exc + dataframe)" where
  "fetch_historical_data env tkr period =
     (let ev = [LogInfo [Lit ''Fetching historical data for '', Lit tkr, Lit '' ('', Lit period,
                         Lit '')'']]
      in case yf_history env tkr period ''1d'' of
           Inl e \<Rightarrow> (ev, Inl e)
         | Inr data \<Rightarrow>
             (let data' = data\<lparr>columns := map (map lower_char) (columns data)\<rparr>
              in (ev @ [LogInfo [Lit ''Downloaded '', Num (int (length (rows data'))),
                                 Lit '' bars of data'']],
                  Inr data')))"

subsection \<open>main\<close>

text \<open>
  The loop \<open>for symbol in symbols: try: ... except Exception as e: logger.error(...)\<close>.
  \<open>market_data\<close> is the dictionary, as an association list in insertion order. An
  exception that is not an \<open>Exception\<close> leaves the loop and the function.
\<close>

fun fetch_all ::
  "environment \<Rightarrow> string list \<Rightarrow> (string \<times> dataframe) list
     \<Rightarrow> event list \<times> (exc + (string \<times> dataframe) list)" where
  "fetch_all env [] market_data = ([], Inr market_data)"
| "fetch_all env (tkr # tkrs) market_data =
     (case fetch_historical_data env tkr ''2y'' of
        (ev, Inr data) \<Rightarrow>
          (case fetch_all env tkrs (AList.update tkr data market_data) of
             (ev', r) \<Rightarrow> (ev @ ev', r))
      | (ev, Inl e) \<Rightarrow>
          if is_Exception e
          then (case fetch_all env tkrs market_data of
                  (ev', r) \<Rightarrow>
                    (ev @ [LogError [Lit ''Failed to fetch '', Lit tkr, Lit '': '', ExcStr e]]
                        @ ev', r))
          else (ev, Inl e))"

text \<open>\<open>if not api_key or not api_secret\<close>: None and the empty string are false.\<close>

definition falsy :: "string option \<Rightarrow> bool" where
  "falsy v = (v = None \<or> v = Some [])"

definition credential_warning :: "environment \<Rightarrow> event list" where
  "credential_warning env =
     (if falsy (getenv env ''ALPACA_API_KEY'') \<or> falsy (getenv env ''ALPACA_API_SECRET'')
      then [Print [Lit ''WARNING: ALPACA_API_KEY and ALPACA_API_SECRET not set.''],
            Print [Lit ''Backtest will attempt to use Yahoo Finance fallback.''],
            Print []]
      else [])"

definition the_config :: backtest_config where
  "the_config =
     \<lparr>strategy_class = ''BuyAndHoldStrategy'',
      symbols = [''AAPL''],
      start_date = mk_datetime 2026 1 1,
      end_date = mk_datetime 2026 1 30,
      initial_capital = Fin 7000,
      commission = Fin 0,
      slippage_pct = Fin (1 / 1000),
      risk_free_rate = Fin (2 / 100),
      cache_enabled = True\<rparr>"

definition config_lines :: "backtest_config \<Rightarrow> event list" where
  "config_lines config =
     [Print [Lit ''Strategy: '', Lit (strategy_class config)],
      Print [Lit ''Symbol: '', Lit (hd (symbols config))],
      Print [Lit ''Period: '', DateOf (start_date config), Lit '' to '', DateOf (end_date config)],
      Print (Lit ''Initial Capital: '' # format_currency (initial_capital config)),
      Print []]"

text \<open>The report up to the profit factor (lines 201 to 206 of the script).\<close>

definition performance_lines :: "metrics \<Rightarrow> event list" where
  "performance_lines m =
     [Print [Lit ''Performance Metrics:''],
      Print [Lit (replicate 50 CHR ''-'')],
      Print (Lit ''Total Return:     '' # format_percentage (total_return m)),
      Print (Lit ''Annualized Return: '' # format_percentage (annualized_return m)),
      Print (Lit ''CAGR:             '' # format_percentage (cagr m)),
      Print [Lit ''Win Rate:         '', Fmt ''.2f'' (times_100 (win_rate m)), Lit ''%'']]"

text \<open>
  \<open>if metrics.profit_factor > 0: print(f"Profit Factor:    {metrics.profit_factor:.2f}")\<close>
  \<open>else: print("Profit Factor:    N/A (no losing trades)")\<close>
\<close>

definition profit_factor_line :: "decimal \<Rightarrow> exc + line" where
  "profit_factor_line pf =
     (case decimal_gt_zero pf of
        Inl e \<Rightarrow> Inl e
      | Inr True \<Rightarrow> Inr [Lit ''Profit Factor:    '', Fmt ''.2f'' pf]
      | Inr False \<Rightarrow> Inr [Lit ''Profit Factor:    N/A (no losing trades)''])"

definition summary_lines :: "metrics \<Rightarrow> event list" where
  "summary_lines m =
     [Print (Lit ''Max Drawdown:     '' # format_percentage (max_drawdown m)),
      Print [Lit ''Sharpe Ratio:     '', Fmt ''.2f'' (sharpe_ratio m)],
      Print [],
      Print [Lit ''Trade Summary:''],
      Print [Lit (replicate 50 CHR ''-'')],
      Print [Lit ''Total Trades:     '', Num (int (total_trades m))],
      Print [Lit ''Winning Trades:   '', Num (int (winning_trades m))],
      Print [Lit ''Losing Trades:    '', Num (int (losing_trades m))],
      Print (Lit ''Average Win:      '' # format_currency (average_win m)),
      Print (Lit ''Average Loss:     '' # format_currency (average_loss m)),
      Print []]"

definition trade_lines :: "nat \<Rightarrow> trade \<Rightarrow> event list" where
  "trade_lines i t =
     [Print [Lit ''Trade #'', Num (int i), Lit '': '', Lit (symbol t)],
      Print ([Lit ''  Entry: '', DateOf (entry_date t), Lit '' at ''] @ format_currency (entry_price t)
              @ [Lit '' ('', Num (shares t), Lit '' shares)'']),
      Print ([Lit ''  Exit:  '', DateOf (exit_date t), Lit '' at ''] @ format_currency (exit_price t)
              @ [Lit '' ('', Num (shares t), Lit '' shares)'']),
      Print ([Lit ''  P&L:   ''] @ format_percentage (pnl_pct t) @ [Lit '' (''] @ format_currency (pnl t)
              @ [Lit '')'']),
      Print [Lit ''  Duration: '', Num (duration_days t), Lit '' days''],
      Print [Lit ''  Reason: '', Lit (reason_str (exit_reason t))],
      Print []]"

text \<open>\<open>for i, trade in enumerate(result.trades, 1)\<close>\<close>

fun trades_lines :: "nat \<Rightarrow> trade list \<Rightarrow> event list" where
  "trades_lines i [] = []"
| "trades_lines i (t # ts) = trade_lines i t @ trades_lines (Suc i) ts"

definition details_lines :: "backtest_result \<Rightarrow> event list" where
  "details_lines result =
     (if trades result \<noteq> []
      then [Print [Lit ''Trade Details:''], Print [Lit (replicate 50 CHR ''-'')]]
           @ trades_lines 1 (trades result)
      else [])
     @ (if data_warnings result \<noteq> []
        then [Print [Lit ''Data Quality Warnings:''], Print [Lit (replicate 50 CHR ''-'')]]
             @ map (\<lambda>w. Print (Lit ''  - '' # w)) (data_warnings result) @ [Print []]
        else [])
     @ [Print [Lit ''Execution Time: '', Fmt ''.2f'' (execution_time_seconds result), Lit '' seconds''],
        Print [],
        Print [Lit ''Tip: Run with different symbols or date ranges to compare performance.'']]"

text \<open>The part of main after the data is there: lines 173 to 248.\<close>

definition run_and_report :: "environment \<Rightarrow> dataframe \<Rightarrow> event list \<times> (exc + unit)" where
  "run_and_report env data =
     (let config = the_config;
          ev = NewConfig config # config_lines config
               @ [Print [Lit ''Running backtest...''], NewEngine, EngineRun]
      in case engine_run env config data of
           Inl e \<Rightarrow> (ev, Inl e)
         | Inr result \<Rightarrow>
             (let ev' = ev @ [Print [Lit ''Backtest complete.''], Print []]
                        @ performance_lines (metrics result)
              in case profit_factor_line (profit_factor (metrics result)) of
                   Inl e \<Rightarrow> (ev', Inl e)
                 | Inr l \<Rightarrow>
                     (ev' @ [Print l] @ summary_lines (metrics result) @ details_lines result,
                      Inr ())))"

definition main :: "environment \<Rightarrow> event list \<times> (exc + unit)" where
  "main env =
     (let ev = [Print [Lit ''=== Simple Backtest: AAPL 2023 ===''], Print []]
               @ credential_warning env
      in case fetch_all env [''AAPL''] [] of
           (ev', Inl e) \<Rightarrow> (ev @ ev', Inl e)
         | (ev', Inr market_data) \<Rightarrow>
             if market_data = []
             then (ev @ ev' @ [LogError [Lit ''No market data available. Exiting.'']], Inr ())
             else (case map_of market_data ''AAPL'' of
                     None \<Rightarrow> (ev @ ev', Inl (KeyError ''AAPL''))
                   | Some data \<Rightarrow>
                       (case run_and_report env data of (ev'', r) \<Rightarrow> (ev @ ev' @ ev'', r))))"

subsection \<open>The module body\<close>

text \<open>
  The statements of the module in order: the .env file is loaded and two DEBUG lines are
  printed; the unguarded imports (pandas, yfinance, the sample strategy, the models) run;
  the engine is imported inside \<open>try ... except ImportError\<close>, whose handler prints two
  lines and calls \<open>sys.exit(0)\<close>; the functions are defined; main is called when the
  module runs as a script. \<open>sys.exit(0)\<close> raises \<open>SystemExit(0)\<close>.
\<close>

definition debug_lines :: "environment \<Rightarrow> event list" where
  "debug_lines env =
     [Print [Lit ''DEBUG: Loading .env from: '', Lit (env_path env)],
      Print [Lit ''DEBUG: Success? '', Lit (py_bool (load_dotenv env))]]"

definition engine_missing_lines :: "event list" where
  "engine_missing_lines =
     [Print [Lit ''WARNING: BacktestEngine not yet implemented.''],
      Print [Lit ''This example will be functional once T027 (BacktestEngine) is completed.'']]"

definition script :: "environment \<Rightarrow> event list \<times> (exc + unit)" where
  "script env =
     (case import_deps env of
        Some e \<Rightarrow> (debug_lines env, Inl e)
      | None \<Rightarrow>
          (case import_engine env of
             Some e \<Rightarrow>
               if is_ImportError e
               then (debug_lines env @ engine_missing_lines, Inl (SystemExit 0))
               else (debug_lines env, Inl e)
           | None \<Rightarrow>
               if run_as_main env
               then (case main env of (ev, r) \<Rightarrow> (debug_lines env @ ev, r))
               else (debug_lines env, Inr ())))"

text \<open>The status the interpreter exits with.\<close>

fun exit_status :: "exc + unit \<Rightarrow> int" where
  "exit_status (Inr u) = 0"
| "exit_status (Inl (SystemExit n)) = n"
| "exit_status (Inl e) = 1"

text \<open>The events of a backtest: the construction of the config, of the engine, and its run.\<close>

fun engine_event :: "event \<Rightarrow> bool" where
  "engine_event (NewConfig c) = True"
| "engine_event NewEngine = True"
| "engine_event EngineRun = True"
| "engine_event _ = False"

text \<open>The events only main leaves: its banner, and the events of a backtest.\<close>

fun main_event :: "event \<Rightarrow> bool" where
  "main_event (Print l) = (l = [Lit ''=== Simple Backtest: AAPL 2023 ===''])"
| "main_event e = engine_event e"


section \<open>The backtest engine, modelled from the specification\<close>

text \<open>
  Modelled from the spec: the engine the script imports
  (\<open>src.trading_bot.backtest.engine\<close>) and its models are not part of the slice. The
  definitions of this section follow sections 3, 4 and 7 of the specification, component by
  component. Money is exact (rationals). Where the specification leaves a choice open, the
  text before the definition says which one is taken.
\<close>

subsection \<open>Data model\<close>

record bar =
  timestamp :: datetime
  open_price :: rat
  high :: rat
  low :: rat
  close :: rat
  volume :: int

datatype signal = Hold | EnterLong rat | ExitLong | EnterShort rat | ExitShort

datatype side = Buy | Sell

record fill_record =
  fill_timestamp :: datetime
  fill_symbol :: string
  side :: side
  price :: rat
  fill_shares :: int
  fill_commission :: rat

record position =
  pos_symbol :: string
  pos_shares :: int
  average_entry_price :: rat
  entry_timestamp :: datetime

text \<open>The ledger's state machine: \<open>Flat \<rightarrow> Long \<rightarrow> Flat\<close> or \<open>Flat \<rightarrow> Short \<rightarrow> Flat\<close>.\<close>

datatype holding = Flat | Long position | Short position

record ledger =
  cash :: rat
  holding :: holding
  equity_history :: "equity_point list"
  closed_trades :: "trade list"

text \<open>What a strategy sees: the bars up to and including the current one, position and cash.\<close>

record decision_context =
  history :: "bar list"
  ctx_holding :: holding
  ctx_cash :: rat

type_synonym strategy = "decision_context \<Rightarrow> signal"

text \<open>"Commission is a flat or proportional fee per the config".\<close>

datatype fee_scheme = FlatFee | ProportionalFee

text \<open>What the Execution Simulator takes from the config.\<close>

record exec_params =
  traded_symbol :: string
  slippage :: rat
  fee :: rat
  scheme :: fee_scheme

datatype error = DataError | ConfigError

subsection \<open>Data Quality Validator (4.1)\<close>

text \<open>
  The checks in the order of 4.1. The expected calendar cadence is a parameter: a gap is a
  pair of consecutive bars more than \<open>max_gap\<close> days apart.
\<close>

definition strictly_increasing :: "bar list \<Rightarrow> bool" where
  "strictly_increasing bars = sorted_wrt (<) (map timestamp bars)"

definition gap_warnings :: "int \<Rightarrow> bar list \<Rightarrow> line list" where
  "gap_warnings max_gap bars =
     map (\<lambda>(a, b). [Lit ''gap of '', Num (timestamp b - timestamp a), Lit '' days after '',
                      DateOf (timestamp a)])
         (filter (\<lambda>(a, b). max_gap < timestamp b - timestamp a) (zip bars (tl bars)))"

definition bad_range :: "bar \<Rightarrow> bool" where
  "bad_range b = (high b < low b \<or> close b < low b \<or> high b < close b)"

definition range_warnings :: "bar list \<Rightarrow> line list" where
  "range_warnings bars =
     map (\<lambda>b. [Lit ''inconsistent prices on '', DateOf (timestamp b)]) (filter bad_range bars)"

definition volume_warnings :: "bar list \<Rightarrow> line list" where
  "volume_warnings bars =
     map (\<lambda>b. [Lit ''zero volume on '', DateOf (timestamp b)])
         (filter (\<lambda>b. volume b = 0) bars)"

definition validate :: "int \<Rightarrow> bar list \<Rightarrow> error + line list" where
  "validate max_gap bars =
     (if \<not> strictly_increasing bars then Inl DataError
      else Inr (gap_warnings max_gap bars @ range_warnings bars @ volume_warnings bars))"

text \<open>A clean series: none of the conditions (a) to (d) of 4.1.\<close>

definition clean :: "int \<Rightarrow> bar list \<Rightarrow> bool" where
  "clean max_gap bars =
     (strictly_increasing bars
      \<and> list_all (\<lambda>(a, b). timestamp b - timestamp a \<le> max_gap) (zip bars (tl bars))
      \<and> list_all (\<lambda>b. \<not> bad_range b) bars
      \<and> list_all (\<lambda>b. volume b \<noteq> 0) bars)"

subsection \<open>Execution Simulator (4.3)\<close>

definition adjusted_price :: "exec_params \<Rightarrow> side \<Rightarrow> bar \<Rightarrow> rat" where
  "adjusted_price P sd b =
     (case sd of Buy \<Rightarrow> close b * (1 + slippage P) | Sell \<Rightarrow> close b * (1 - slippage P))"

definition commission_amount :: "exec_params \<Rightarrow> int \<Rightarrow> rat \<Rightarrow> rat" where
  "commission_amount P n p =
     (case scheme P of FlatFee \<Rightarrow> fee P | ProportionalFee \<Rightarrow> fee P * of_int n * p)"

definition mk_fill :: "exec_params \<Rightarrow> side \<Rightarrow> bar \<Rightarrow> rat \<Rightarrow> int \<Rightarrow> fill_record" where
  "mk_fill P sd b p n =
     \<lparr>fill_timestamp = timestamp b, fill_symbol = traded_symbol P, side = sd, price = p,
      fill_shares = n, fill_commission = commission_amount P n p\<rparr>"

text \<open>What a fill does to cash: a buy pays \<open>shares * price + commission\<close>, a sell receives
  \<open>shares * price - commission\<close> (4.4).\<close>

definition cash_effect :: "fill_record \<Rightarrow> rat" where
  "cash_effect f =
     (case side f of
        Buy \<Rightarrow> - (of_int (fill_shares f) * price f + fill_commission f)
      | Sell \<Rightarrow> of_int (fill_shares f) * price f - fill_commission f)"

text \<open>
  Step 2 of 4.3, and the sentence of 4.4 that "an entry that would overdraw cash is rejected
  by the Execution Simulator at fill time".
\<close>

definition entry_fill :: "exec_params \<Rightarrow> side \<Rightarrow> rat \<Rightarrow> bar \<Rightarrow> rat \<Rightarrow> fill_record option" where
  "entry_fill P sd size_fraction b available_cash =
     (let target_value = available_cash * size_fraction;
          p = adjusted_price P sd b;
          n = \<lfloor>target_value / p\<rfloor>;
          f = mk_fill P sd b p n
      in if n = 0 then None
         else if available_cash + cash_effect f < 0 then None
         else Some f)"

text \<open>Step 4 of 4.3: an exit trades the full position; with no position there is nothing to fill.\<close>

definition exit_fill :: "exec_params \<Rightarrow> side \<Rightarrow> bar \<Rightarrow> int \<Rightarrow> fill_record option" where
  "exit_fill P sd b position_size =
     (if position_size = 0 then None
      else Some (mk_fill P sd b (adjusted_price P sd b) position_size))"

text \<open>
  \<open>fill(signal, bar, available_cash)\<close>; the size of the current position is a further
  argument, which an exit needs.
\<close>

fun fill :: "exec_params \<Rightarrow> signal \<Rightarrow> bar \<Rightarrow> rat \<Rightarrow> int \<Rightarrow> fill_record option" where
  "fill P Hold b available_cash position_size = None"
| "fill P (EnterLong size_fraction) b available_cash position_size =
     entry_fill P Buy size_fraction b available_cash"
| "fill P (EnterShort size_fraction) b available_cash position_size =
     entry_fill P Sell size_fraction b available_cash"
| "fill P ExitLong b available_cash position_size = exit_fill P Sell b position_size"
| "fill P ExitShort b available_cash position_size = exit_fill P Buy b position_size"

subsection \<open>Portfolio Ledger and Trade Recorder (4.4, 4.5)\<close>

definition position_size :: "holding \<Rightarrow> int" where
  "position_size h = (case h of Flat \<Rightarrow> 0 | Long p \<Rightarrow> pos_shares p | Short p \<Rightarrow> pos_shares p)"

text \<open>The shares held, counted negative for a short position.\<close>

definition signed_shares :: "holding \<Rightarrow> int" where
  "signed_shares h = (case h of Flat \<Rightarrow> 0 | Long p \<Rightarrow> pos_shares p | Short p \<Rightarrow> - pos_shares p)"

definition open_position :: "fill_record \<Rightarrow> position" where
  "open_position f =
     \<lparr>pos_symbol = fill_symbol f, pos_shares = fill_shares f, average_entry_price = price f,
      entry_timestamp = fill_timestamp f\<rparr>"

text \<open>
  The Trade of a closed position: \<open>pnl = (exit_price - entry_price) * shares - total_commission\<close>
  for a long position, with the price difference reversed for a short one;
  \<open>pnl_pct = pnl / (entry_price * shares)\<close>; \<open>duration_days = (exit_date - entry_date).days\<close>.
  The total commission is the entry's, as the config gives it, plus the exit's.
\<close>

definition close_trade :: "exec_params \<Rightarrow> exit_reason \<Rightarrow> bool \<Rightarrow> position \<Rightarrow> fill_record \<Rightarrow> trade" where
  "close_trade P reason is_long pos f =
     (let n = of_int (pos_shares pos);
          total_commission =
            commission_amount P (pos_shares pos) (average_entry_price pos) + fill_commission f;
          gross = (if is_long then (price f - average_entry_price pos) * n
                   else (average_entry_price pos - price f) * n);
          net = gross - total_commission
      in \<lparr>symbol = pos_symbol pos,
          entry_date = entry_timestamp pos,
          entry_price = Fin (average_entry_price pos),
          exit_date = fill_timestamp f,
          exit_price = Fin (price f),
          shares = pos_shares pos,
          pnl = Fin net,
          pnl_pct = Fin (net / (average_entry_price pos * n)),
          duration_days = fill_timestamp f - entry_timestamp pos,
          exit_reason = reason\<rparr>)"

text \<open>The transitions of 4.4. A fill that fits no transition leaves the ledger as it is.\<close>

fun transition :: "exec_params \<Rightarrow> exit_reason \<Rightarrow> fill_record \<Rightarrow> holding \<Rightarrow> side \<Rightarrow> ledger \<Rightarrow> ledger" where
  "transition P reason f Flat Buy L =
     L\<lparr>cash := cash L + cash_effect f, holding := Long (open_position f)\<rparr>"
| "transition P reason f Flat Sell L =
     L\<lparr>cash := cash L + cash_effect f, holding := Short (open_position f)\<rparr>"
| "transition P reason f (Long pos) Sell L =
     L\<lparr>cash := cash L + cash_effect f, holding := Flat,
       closed_trades := closed_trades L @ [close_trade P reason True pos f]\<rparr>"
| "transition P reason f (Short pos) Buy L =
     L\<lparr>cash := cash L + cash_effect f, holding := Flat,
       closed_trades := closed_trades L @ [close_trade P reason False pos f]\<rparr>"
| "transition P reason f (Long pos) Buy L = L"
| "transition P reason f (Short pos) Sell L = L"

definition apply_fill :: "exec_params \<Rightarrow> exit_reason \<Rightarrow> fill_record \<Rightarrow> ledger \<Rightarrow> ledger" where
  "apply_fill P reason f L = transition P reason f (holding L) (side f) L"

text \<open>\<open>equity = cash + shares * bar.close\<close>, the shares of a short position counted negative.\<close>

definition mark_to_market :: "ledger \<Rightarrow> bar \<Rightarrow> rat" where
  "mark_to_market L b = cash L + of_int (signed_shares (holding L)) * close b"

subsection \<open>The simulation loop\<close>

text \<open>
  No nested positions: an entry signal counts only when flat, an exit signal only against
  the position of its kind; any other signal is treated as Hold.
\<close>

fun applicable :: "holding \<Rightarrow> signal \<Rightarrow> bool" where
  "applicable Flat (EnterLong size_fraction) = True"
| "applicable Flat (EnterShort size_fraction) = True"
| "applicable (Long pos) ExitLong = True"
| "applicable (Short pos) ExitShort = True"
| "applicable h s = False"

text \<open>The fill of one bar: the strategy decides on the prefix of the series, the simulator fills.\<close>

definition bar_fill :: "strategy \<Rightarrow> exec_params \<Rightarrow> bar list \<Rightarrow> bar \<Rightarrow> ledger \<Rightarrow> fill_record option" where
  "bar_fill decide P seen b L =
     (let s = decide \<lparr>history = seen @ [b], ctx_holding = holding L, ctx_cash = cash L\<rparr>
      in if applicable (holding L) s then fill P s b (cash L) (position_size (holding L))
         else None)"

definition on_bar :: "strategy \<Rightarrow> exec_params \<Rightarrow> bar list \<Rightarrow> bar \<Rightarrow> ledger \<Rightarrow> ledger" where
  "on_bar decide P seen b L =
     (let L' = (case bar_fill decide P seen b L of
                  None \<Rightarrow> L
                | Some f \<Rightarrow> apply_fill P signal_exit f L)
      in L'\<lparr>equity_history :=
               equity_history L' @ [\<lparr>ep_timestamp = timestamp b, equity = mark_to_market L' b\<rparr>]\<rparr>)"

fun simulate :: "strategy \<Rightarrow> exec_params \<Rightarrow> bar list \<Rightarrow> bar list \<Rightarrow> ledger \<Rightarrow> ledger" where
  "simulate decide P seen [] L = L"
| "simulate decide P seen (b # bs) L =
     simulate decide P (seen @ [b]) bs (on_bar decide P seen b L)"

text \<open>
  After the last bar an open position is closed at that bar's close price, with the
  config's commission, for the reason \<open>end_of_data\<close>.
\<close>

definition force_close :: "exec_params \<Rightarrow> bar \<Rightarrow> ledger \<Rightarrow> ledger" where
  "force_close P b L =
     (case holding L of
        Flat \<Rightarrow> L
      | Long pos \<Rightarrow> apply_fill P end_of_data (mk_fill P Sell b (close b) (pos_shares pos)) L
      | Short pos \<Rightarrow> apply_fill P end_of_data (mk_fill P Buy b (close b) (pos_shares pos)) L)"

definition initial_ledger :: "rat \<Rightarrow> ledger" where
  "initial_ledger capital = \<lparr>cash = capital, holding = Flat, equity_history = [], closed_trades = []\<rparr>"

text \<open>The ledger once the bars \<open>0..k\<close> have been processed.\<close>

definition ledger_after :: "strategy \<Rightarrow> exec_params \<Rightarrow> rat \<Rightarrow> bar list \<Rightarrow> nat \<Rightarrow> ledger" where
  "ledger_after decide P capital bars k =
     simulate decide P [] (take (Suc k) bars) (initial_ledger capital)"

text \<open>The ledger bar \<open>k\<close> starts from, and the fill that bar gets.\<close>

definition ledger_before :: "strategy \<Rightarrow> exec_params \<Rightarrow> rat \<Rightarrow> bar list \<Rightarrow> nat \<Rightarrow> ledger" where
  "ledger_before decide P capital bars k =
     simulate decide P [] (take k bars) (initial_ledger capital)"

definition fill_at :: "strategy \<Rightarrow> exec_params \<Rightarrow> rat \<Rightarrow> bar list \<Rightarrow> nat \<Rightarrow> fill_record option" where
  "fill_at decide P capital bars k =
     bar_fill decide P (take k bars) (bars ! k) (ledger_before decide P capital bars k)"

text \<open>What a fill adds to the equity of its bar: its cash effect plus the shares it moves,
  valued at the bar's close.\<close>

definition equity_effect :: "fill_record option \<Rightarrow> bar \<Rightarrow> rat" where
  "equity_effect fo b =
     (case fo of
        None \<Rightarrow> 0
      | Some f \<Rightarrow>
          cash_effect f
          + (case side f of Buy \<Rightarrow> of_int (fill_shares f) | Sell \<Rightarrow> - of_int (fill_shares f))
            * close b)"

text \<open>The shares and the cash a bar's fill moves, none when there is no fill.\<close>

definition shares_moved :: "fill_record option \<Rightarrow> int" where
  "shares_moved fo =
     (case fo of None \<Rightarrow> 0
      | Some f \<Rightarrow> (case side f of Buy \<Rightarrow> fill_shares f | Sell \<Rightarrow> - fill_shares f))"

definition cash_moved :: "fill_record option \<Rightarrow> rat" where
  "cash_moved fo = (case fo of None \<Rightarrow> 0 | Some f \<Rightarrow> cash_effect f)"

subsection \<open>Runs that hold long positions only\<close>

text \<open>
  A commission that an exit's proceeds always cover (none, or a proportion of at most 1 of
  the traded value); a holding that is flat or long, with a number of shares that is not
  negative; a ledger that owes nothing and holds no short position.
\<close>

definition fee_within_proceeds :: "exec_params \<Rightarrow> bool" where
  "fee_within_proceeds P =
     (fee P = 0 \<or> (scheme P = ProportionalFee \<and> 0 \<le> fee P \<and> fee P \<le> 1))"

fun long_or_flat :: "holding \<Rightarrow> bool" where
  "long_or_flat Flat = True"
| "long_or_flat (Long pos) = (0 \<le> pos_shares pos)"
| "long_or_flat (Short pos) = False"

definition solvent :: "ledger \<Rightarrow> bool" where
  "solvent L = (0 \<le> cash L \<and> long_or_flat (holding L))"

subsection \<open>Metrics Calculator (4.6)\<close>

text \<open>
  The numeric value of a trade's pnl; the engine only ever stores finite values.
\<close>

fun fin :: "decimal \<Rightarrow> rat" where
  "fin (Fin q) = q"
| "fin d = 0"

definition pnls :: "trade list \<Rightarrow> rat list" where
  "pnls ts = map (\<lambda>t. fin (pnl t)) ts"

text \<open>Winning trades have a positive pnl, losing trades a negative one.\<close>

definition winning :: "rat list \<Rightarrow> rat list" where
  "winning ps = filter (\<lambda>p. 0 < p) ps"

definition losing :: "rat list \<Rightarrow> rat list" where
  "losing ps = filter (\<lambda>p. p < 0) ps"

text \<open>\<open>win_rate = winning_trades / total_trades\<close>, 0 when there is no trade.\<close>

definition calc_win_rate :: "rat list \<Rightarrow> rat" where
  "calc_win_rate ps =
     (if length ps = 0 then 0 else of_nat (length (winning ps)) / of_nat (length ps))"

text \<open>
  \<open>profit_factor = sum(winning pnl) / abs(sum(losing pnl))\<close>. With no losing trade the
  value is the sentinel, taken to be 0: the script compares the field with \<open>> 0\<close> and
  prints "N/A" otherwise, so the sentinel is a number that is not positive.
\<close>

definition calc_profit_factor :: "rat list \<Rightarrow> decimal" where
  "calc_profit_factor ps =
     (if losing ps = [] then Fin 0
      else Fin (sum_list (winning ps) / \<bar>sum_list (losing ps)\<bar>))"

definition mean :: "rat list \<Rightarrow> rat" where
  "mean xs = (if xs = [] then 0 else sum_list xs / of_nat (length xs))"

text \<open>\<open>total_return = (final_equity - initial_capital) / initial_capital\<close>\<close>

definition calc_total_return :: "rat \<Rightarrow> rat list \<Rightarrow> rat" where
  "calc_total_return capital es =
     ((if es = [] then capital else last es) - capital) / capital"

text \<open>
  \<open>(1 + total_return)^(365.25 / elapsed_days) - 1\<close>. The power with a fractional exponent
  is an operation of the decimal arithmetic, passed in as \<open>pow\<close>.
\<close>

definition annualize :: "(rat \<Rightarrow> rat \<Rightarrow> rat) \<Rightarrow> rat \<Rightarrow> int \<Rightarrow> rat" where
  "annualize pow tr elapsed_days = pow (1 + tr) ((36525 / 100) / of_int elapsed_days) - 1"

text \<open>\<open>min over t of (equity[t] - running_peak) / running_peak\<close>\<close>

fun drawdown_from :: "rat \<Rightarrow> rat list \<Rightarrow> rat" where
  "drawdown_from peak [] = 0"
| "drawdown_from peak (e # es) =
     (let pk = max peak e in min ((e - pk) / pk) (drawdown_from pk es))"

definition calc_max_drawdown :: "rat list \<Rightarrow> rat" where
  "calc_max_drawdown es = (case es of [] \<Rightarrow> 0 | e # _ \<Rightarrow> drawdown_from e es)"

text \<open>
  \<open>mean(daily_excess_return) / stdev(daily_excess_return) * sqrt(252)\<close>, the sentinel (0)
  when the deviation is 0. The deviation is the population's; the square sq_root is
  passed in as \<open>sq_root\<close>.
\<close>

definition daily_returns :: "rat list \<Rightarrow> rat list" where
  "daily_returns es = map (\<lambda>(a, b). (b - a) / a) (zip es (tl es))"

definition calc_sharpe :: "(rat \<Rightarrow> rat) \<Rightarrow> rat \<Rightarrow> rat list \<Rightarrow> rat" where
  "calc_sharpe sq_root rf es =
     (let xs = map (\<lambda>r. r - rf / 252) (daily_returns es);
          m = mean xs;
          sd = sq_root (mean (map (\<lambda>x. (x - m) * (x - m)) xs))
      in if sd = 0 then 0 else m / sd * sq_root 252)"

record numerics =
  pow :: "rat \<Rightarrow> rat \<Rightarrow> rat"
  sq_root :: "rat \<Rightarrow> rat"

definition calculate_metrics ::
  "numerics \<Rightarrow> rat \<Rightarrow> rat \<Rightarrow> int \<Rightarrow> equity_point list \<Rightarrow> trade list \<Rightarrow> metrics" where
  "calculate_metrics N capital rf elapsed_days curve ts =
     (let es = map equity curve; ps = pnls ts; tr = calc_total_return capital es
      in \<lparr>total_return = Fin tr,
          annualized_return = Fin (annualize (pow N) tr elapsed_days),
          cagr = Fin (annualize (pow N) tr elapsed_days),
          win_rate = Fin (calc_win_rate ps),
          profit_factor = calc_profit_factor ps,
          max_drawdown = Fin (calc_max_drawdown es),
          sharpe_ratio = Fin (calc_sharpe (sq_root N) rf es),
          total_trades = length ps,
          winning_trades = length (winning ps),
          losing_trades = length (losing ps),
          average_win = Fin (mean (winning ps)),
          average_loss = Fin (mean (losing ps))\<rparr>)"

subsection \<open>The engine\<close>

text \<open>
  Input validation (3, 7): a ConfigError for an invalid date range, a capital that is not
  positive or a slippage outside \<open>[0, 1)\<close> (and for a field that is not a finite number);
  a DataError for an empty series, a price that is not positive, or timestamps that do not
  increase. Both abort the run before any ledger exists.
\<close>

definition is_fin :: "decimal \<Rightarrow> bool" where
  "is_fin d = (case d of Fin q \<Rightarrow> True | _ \<Rightarrow> False)"

definition config_ok :: "backtest_config \<Rightarrow> bool" where
  "config_ok cfg =
     (is_fin (initial_capital cfg) \<and> is_fin (commission cfg) \<and> is_fin (slippage_pct cfg)
      \<and> is_fin (risk_free_rate cfg)
      \<and> start_date cfg < end_date cfg
      \<and> 0 < fin (initial_capital cfg)
      \<and> 0 \<le> fin (slippage_pct cfg) \<and> fin (slippage_pct cfg) < 1)"

definition positive_prices :: "bar \<Rightarrow> bool" where
  "positive_prices b = (0 < open_price b \<and> 0 < high b \<and> 0 < low b \<and> 0 < close b)"

definition params_of :: "fee_scheme \<Rightarrow> backtest_config \<Rightarrow> exec_params" where
  "params_of sch cfg =
     \<lparr>traded_symbol = (case symbols cfg of [] \<Rightarrow> [] | s # _ \<Rightarrow> s),
      slippage = fin (slippage_pct cfg),
      fee = fin (commission cfg),
      scheme = sch\<rparr>"

text \<open>What the engine is built from, beside the config: the strategy's capability, the kind
  of commission, the decimal arithmetic and the validator's cadence.\<close>

record engine =
  decide :: strategy
  fees :: fee_scheme
  arith :: numerics
  max_gap_days :: int

text \<open>The ledger at the end of the run: all bars processed, an open position closed.\<close>

definition final_ledger :: "engine \<Rightarrow> backtest_config \<Rightarrow> bar list \<Rightarrow> ledger" where
  "final_ledger E cfg bars =
     force_close (params_of (fees E) cfg) (last bars)
       (simulate (decide E) (params_of (fees E) cfg) [] bars
          (initial_ledger (fin (initial_capital cfg))))"

text \<open>\<open>run\<close>, with the two readings of the wall clock it takes, at its start and at its end.\<close>

definition run :: "engine \<Rightarrow> backtest_config \<Rightarrow> bar list \<Rightarrow> rat \<times> rat \<Rightarrow> error + backtest_result" where
  "run E cfg bars clock =
     (if \<not> config_ok cfg then Inl ConfigError
      else if bars = [] \<or> \<not> list_all positive_prices bars then Inl DataError
      else case validate (max_gap_days E) bars of
             Inl e \<Rightarrow> Inl e
           | Inr warnings \<Rightarrow>
               (let L = final_ledger E cfg bars
                in Inr \<lparr>metrics = calculate_metrics (arith E) (fin (initial_capital cfg))
                                    (fin (risk_free_rate cfg)) (end_date cfg - start_date cfg)
                                    (equity_history L) (closed_trades L),
                        trades = closed_trades L,
                        equity_curve = equity_history L,
                        data_warnings = warnings,
                        execution_time_seconds = Fin (snd clock - fst clock)\<rparr>))"


section \<open>Example inputs\<close>

text \<open>An environment in which the engine module is missing, and one in which the engine is
  there but the data source is unreachable.\<close>

definition env_no_engine :: environment where
  "env_no_engine =
     \<lparr>env_path = ''/repo/.env'', load_dotenv = False, import_deps = None,
      import_engine = Some ModuleNotFoundError, run_as_main = True,
      getenv = (\<lambda>k. None),
      yf_history = (\<lambda>s p i. Inl (OtherException ''offline'')),
      engine_run = (\<lambda>c d. Inl (OtherException ''no engine''))\<rparr>"

definition env_offline :: environment where
  "env_offline = env_no_engine\<lparr>import_engine := None\<rparr>"

text \<open>
  Bars whose prices are all the close, a few strategies, stand-ins for the two operations
  of the decimal arithmetic, and configs that differ from the script's in capital and
  commission and have no slippage.
\<close>

definition mk_bar :: "datetime \<Rightarrow> rat \<Rightarrow> bar" where
  "mk_bar t c = \<lparr>timestamp = t, open_price = c, high = c, low = c, close = c, volume = 1000\<rparr>"

text \<open>Buy with all the cash when flat, and hold.\<close>

definition buy_and_hold :: strategy where
  "buy_and_hold ctx =
     (case ctx_holding ctx of Flat \<Rightarrow> EnterLong 1 | Long pos \<Rightarrow> Hold | Short pos \<Rightarrow> Hold)"

definition enter_then_exit :: strategy where
  "enter_then_exit ctx =
     (case ctx_holding ctx of Flat \<Rightarrow> EnterLong 1 | Long pos \<Rightarrow> ExitLong | Short pos \<Rightarrow> Hold)"

definition stub_numerics :: numerics where
  "stub_numerics = \<lparr>pow = (\<lambda>a b. a), sq_root = (\<lambda>x. x)\<rparr>"

definition short_then_cover :: strategy where
  "short_then_cover ctx =
     (case ctx_holding ctx of Flat \<Rightarrow> EnterShort 1 | Long pos \<Rightarrow> Hold | Short pos \<Rightarrow> ExitShort)"

text \<open>A strategy that would sell short, but only with negative cash.\<close>

definition guarded :: strategy where
  "guarded ctx = (if ctx_cash ctx < 0 then EnterShort 1 else enter_then_exit ctx)"

definition demo_engine :: "strategy \<Rightarrow> fee_scheme \<Rightarrow> engine" where
  "demo_engine strat sch = \<lparr>decide = strat, fees = sch, arith = stub_numerics, max_gap_days = 4\<rparr>"

definition rally_bars :: "bar list" where
  "rally_bars = [mk_bar 1 100, mk_bar 2 110]"

definition squeeze_bars :: "bar list" where
  "squeeze_bars = [mk_bar 1 10, mk_bar 2 30]"

definition demo_config :: "rat \<Rightarrow> rat \<Rightarrow> backtest_config" where
  "demo_config capital c =
     the_config\<lparr>initial_capital := Fin capital, commission := Fin c, slippage_pct := Fin 0\<rparr>"

definition crash_bars :: "bar list" where
  "crash_bars = [mk_bar 1 90, mk_bar 2 5]"

section \<open>Properties of the script\<close>

subsection \<open>The guarded import of the engine\<close>

text \<open>
  C9. When the import of BacktestEngine raises ImportError (the unguarded imports before it
  having succeeded), the module prints its two DEBUG lines and the two lines of the
  warning, and leaves through \<open>sys.exit(0)\<close>: the process ends with status 0, and nothing
  of main has happened (no banner, no config, no engine, no run).
\<close>

theorem engine_import_guard:
  assumes "import_deps env = None" and "import_engine env = Some e" and "is_ImportError e"
  shows "script env = (debug_lines env @ engine_missing_lines, Inl (SystemExit 0))
       \<and> exit_status (snd (script env)) = 0
       \<and> \<not> list_ex main_event (fst (script env))"
  using assms by (simp add: script_def debug_lines_def engine_missing_lines_def)

theorem engine_import_guard_witness:
  "script env_no_engine =
     ([Print [Lit ''DEBUG: Loading .env from: '', Lit ''/repo/.env''],
       Print [Lit ''DEBUG: Success? '', Lit ''False''],
       Print [Lit ''WARNING: BacktestEngine not yet implemented.''],
       Print [Lit ''This example will be functional once T027 (BacktestEngine) is completed.'']],
      Inl (SystemExit 0))
   \<and> exit_status (snd (script env_no_engine)) = 0"
  using engine_import_guard [of env_no_engine ModuleNotFoundError]
  by (simp add: env_no_engine_def debug_lines_def engine_missing_lines_def py_bool_def)

text \<open>The guard is a real test: with the engine there, a script run reaches main.\<close>

lemma script_runs_main:
  assumes "import_deps env = None" and "import_engine env = None" and "run_as_main env"
  shows "script env = (debug_lines env @ fst (main env), snd (main env))"
  using assms by (simp add: script_def split: prod.splits)

text \<open>Any other exception of the import is not handled.\<close>

lemma engine_import_other_exception:
  assumes "import_deps env = None" and "import_engine env = Some e" and "\<not> is_ImportError e"
  shows "script env = (debug_lines env, Inl e)"
  using assms by (simp add: script_def)

subsection \<open>No market data\<close>

lemma fetch_failed:
  assumes "yf_history env s ''2y'' ''1d'' = Inl e"
  shows "fetch_historical_data env s ''2y'' =
     ([LogInfo [Lit ''Fetching historical data for '', Lit s, Lit '' ('', Lit ''2y'', Lit '')'']],
      Inl e)"
  using assms by (simp add: fetch_historical_data_def)

text \<open>The loop over any list of symbols: when every fetch raises an Exception, the dictionary
  is left as it was and nothing of a backtest has happened.\<close>

lemma fetch_all_fail:
  assumes "\<forall>s \<in> set ss. \<exists>e. yf_history env s ''2y'' ''1d'' = Inl e \<and> is_Exception e"
  shows "snd (fetch_all env ss md) = Inr md \<and> \<not> list_ex main_event (fst (fetch_all env ss md))"
  using assms
proof (induction ss arbitrary: md)
  case Nil
  then show ?case by simp
next
  case (Cons s ss)
  then obtain e where e: "yf_history env s ''2y'' ''1d'' = Inl e" "is_Exception e"
    by auto
  from Cons have ih: "snd (fetch_all env ss md) = Inr md
      \<and> \<not> list_ex main_event (fst (fetch_all env ss md))"
    by simp
  show ?case using e ih by (auto simp: fetch_failed split: prod.splits)
qed

text \<open>
  C10. When the fetch for the one configured symbol, AAPL, fails with an Exception, so that
  \<open>market_data\<close> stays empty, main logs the failure and "No market data available.
  Exiting." and returns normally: its result is \<open>Inr ()\<close>, not an exception, and its trace
  holds no construction of a config, of an engine, and no run.
\<close>

theorem main_no_market_data:
  assumes "yf_history env ''AAPL'' ''2y'' ''1d'' = Inl e" and "is_Exception e"
  shows "main env =
           ([Print [Lit ''=== Simple Backtest: AAPL 2023 ===''], Print []]
            @ credential_warning env
            @ [LogInfo [Lit ''Fetching historical data for '', Lit ''AAPL'', Lit '' ('',
                        Lit ''2y'', Lit '')''],
               LogError [Lit ''Failed to fetch '', Lit ''AAPL'', Lit '': '', ExcStr e],
               LogError [Lit ''No market data available. Exiting.'']],
            Inr ())
       \<and> \<not> list_ex engine_event (fst (main env))"
  using assms by (simp add: main_def fetch_failed credential_warning_def)

theorem main_no_market_data_witness:
  "main env_offline =
           ([Print [Lit ''=== Simple Backtest: AAPL 2023 ===''], Print [],
             Print [Lit ''WARNING: ALPACA_API_KEY and ALPACA_API_SECRET not set.''],
             Print [Lit ''Backtest will attempt to use Yahoo Finance fallback.''],
             Print [],
             LogInfo [Lit ''Fetching historical data for '', Lit ''AAPL'', Lit '' ('',
                      Lit ''2y'', Lit '')''],
             LogError [Lit ''Failed to fetch '', Lit ''AAPL'', Lit '': '',
                       ExcStr (OtherException ''offline'')],
             LogError [Lit ''No market data available. Exiting.'']],
            Inr ())"
  using main_no_market_data [of env_offline "OtherException ''offline''"]
  by (simp add: env_offline_def env_no_engine_def credential_warning_def falsy_def)

text \<open>An exception that is not an Exception (a KeyboardInterrupt, say) is not caught.\<close>

lemma main_fetch_interrupted:
  assumes "yf_history env ''AAPL'' ''2y'' ''1d'' = Inl e" and "\<not> is_Exception e"
  shows "snd (main env) = Inl e"
  using assms by (simp add: main_def fetch_failed)

subsection \<open>The profit factor line\<close>

lemma sum_list_winning_nonneg: "0 \<le> sum_list (winning ps)"
  by (induction ps) (auto simp: winning_def)

lemma sum_list_losing_neg: "losing ps \<noteq> [] \<Longrightarrow> sum_list (losing ps) < 0"
proof (induction ps)
  case Nil
  then show ?case by (simp add: losing_def)
next
  case (Cons p ps)
  show ?case
  proof (cases "losing ps = []")
    case True
    with Cons.prems show ?thesis by (auto simp: losing_def split: if_splits)
  next
    case False
    with Cons.IH have "sum_list (losing ps) < 0" by simp
    then show ?thesis by (auto simp: losing_def)
  qed
qed

text \<open>The calculator's profit factor is a finite number, never an infinity and never NaN.\<close>

lemma calc_profit_factor_finite: "\<exists>q. calc_profit_factor ps = Fin q \<and> 0 \<le> q"
  by (simp add: calc_profit_factor_def sum_list_winning_nonneg)

text \<open>The script prints "N/A (no losing trades)" exactly when the profit factor is 0: when no
  trade lost, and also when trades lost and the winners' pnl sums to 0.\<close>

lemma profit_factor_line_na:
  "profit_factor_line (calc_profit_factor ps) = Inr [Lit ''Profit Factor:    N/A (no losing trades)'']
     \<longleftrightarrow> losing ps = [] \<or> sum_list (winning ps) = 0"
proof (cases "losing ps = []")
  case True
  then show ?thesis by (simp add: calc_profit_factor_def profit_factor_line_def)
next
  case False
  then have "sum_list (losing ps) < 0" by (rule sum_list_losing_neg)
  then have pos: "0 < \<bar>sum_list (losing ps)\<bar>" by simp
  have nn: "0 \<le> sum_list (winning ps)" by (rule sum_list_winning_nonneg)
  show ?thesis
    using False pos nn
    by (auto simp: calc_profit_factor_def profit_factor_line_def zero_less_divide_iff
             split: bool.splits)
qed

text \<open>
  C3. A run whose only trade lost 10: there is a losing trade, the profit factor is
  \<open>0 / \<bar>-10\<bar> = 0\<close>, and the script prints "N/A (no losing trades)" for it.
\<close>

theorem profit_factor_na_with_losing_trade:
  "losing [- 10] = [- 10]
   \<and> calc_profit_factor [- 10] = Fin 0
   \<and> profit_factor_line (calc_profit_factor [- 10])
       = Inr [Lit ''Profit Factor:    N/A (no losing trades)'']"
  by (simp add: losing_def winning_def calc_profit_factor_def profit_factor_line_def)


section \<open>Properties of the engine model\<close>

subsection \<open>The equity curve\<close>

lemma apply_fill_history [simp]: "equity_history (apply_fill P r f L) = equity_history L"
  by (cases "holding L"; cases "side f") (simp_all add: apply_fill_def)

lemma on_bar_history:
  "equity_history (on_bar d P seen b L)
     = equity_history L @ [\<lparr>ep_timestamp = timestamp b, equity = mark_to_market (on_bar d P seen b L) b\<rparr>]"
  by (simp add: on_bar_def mark_to_market_def Let_def split: option.splits)

lemma simulate_append:
  "simulate d P seen (xs @ ys) L = simulate d P (seen @ xs) ys (simulate d P seen xs L)"
  by (induction xs arbitrary: seen L) simp_all

lemma simulate_history:
  "\<exists>pts. equity_history (simulate d P seen bs L) = equity_history L @ pts \<and> length pts = length bs"
proof (induction bs arbitrary: seen L)
  case Nil
  then show ?case by simp
next
  case (Cons b bs)
  obtain pts where pts: "equity_history (simulate d P (seen @ [b]) bs (on_bar d P seen b L))
       = equity_history (on_bar d P seen b L) @ pts" "length pts = length bs"
    using Cons.IH by blast
  show ?case
    using pts by (simp add: on_bar_history [of d P seen b L])
qed

lemma force_close_history [simp]: "equity_history (force_close P b L) = equity_history L"
  by (simp add: force_close_def split: holding.splits)

lemma ledger_after_step:
  assumes "k < length bars"
  shows "ledger_after d P c bars k = on_bar d P (take k bars) (bars ! k) (ledger_before d P c bars k)"
  using assms by (simp add: ledger_after_def ledger_before_def take_Suc_conv_app_nth simulate_append)

lemma ledger_before_Suc: "ledger_before d P c bars (Suc k) = ledger_after d P c bars k"
  by (simp add: ledger_after_def ledger_before_def)

lemma length_ledger_after_history:
  assumes "k < length bars"
  shows "length (equity_history (ledger_after d P c bars k)) = Suc k"
proof -
  obtain pts where "equity_history (ledger_after d P c bars k) = equity_history (initial_ledger c) @ pts"
      "length pts = length (take (Suc k) bars)"
    unfolding ledger_after_def using simulate_history by blast
  then show ?thesis using assms by (simp add: initial_ledger_def)
qed

lemma full_history_nth:
  assumes "k < length bars"
  shows "equity_history (simulate d P [] bars (initial_ledger c)) ! k
       = \<lparr>ep_timestamp = timestamp (bars ! k),
          equity = mark_to_market (ledger_after d P c bars k) (bars ! k)\<rparr>"
proof -
  have split: "simulate d P [] bars (initial_ledger c)
      = simulate d P ([] @ take (Suc k) bars) (drop (Suc k) bars) (ledger_after d P c bars k)"
    unfolding ledger_after_def
    using simulate_append [of d P "[]" "take (Suc k) bars" "drop (Suc k) bars" "initial_ledger c"]
    by simp
  obtain pts where pts: "equity_history (simulate d P [] bars (initial_ledger c))
      = equity_history (ledger_after d P c bars k) @ pts"
    using split simulate_history by metis
  have len: "length (equity_history (ledger_after d P c bars k)) = Suc k"
    using assms by (rule length_ledger_after_history)
  have lst: "equity_history (ledger_after d P c bars k) ! k
      = \<lparr>ep_timestamp = timestamp (bars ! k),
          equity = mark_to_market (ledger_after d P c bars k) (bars ! k)\<rparr>"
    using len on_bar_history [of d P "take k bars" "bars ! k" "ledger_before d P c bars k"]
      ledger_after_step [OF assms, of d P c]
    by (metis diff_Suc_1 length_append_singleton nth_append_length)
  show ?thesis using pts len lst by (simp add: nth_append)
qed

lemma full_history_length:
  "length (equity_history (simulate d P [] bars (initial_ledger c))) = length bars"
proof -
  obtain pts where "equity_history (simulate d P [] bars (initial_ledger c))
      = equity_history (initial_ledger c) @ pts" "length pts = length bars"
    using simulate_history by blast
  then show ?thesis by (simp add: initial_ledger_def)
qed


lemma entry_fill_side: "entry_fill P sd fr b c = Some f \<Longrightarrow> side f = sd \<and> fill_shares f = \<lfloor>c * fr / adjusted_price P sd b\<rfloor>"
  by (auto simp: entry_fill_def mk_fill_def Let_def split: if_splits)

lemma exit_fill_side: "exit_fill P sd b n = Some f \<Longrightarrow> side f = sd \<and> fill_shares f = n"
  by (auto simp: exit_fill_def mk_fill_def split: if_splits)

lemma on_bar_moves:
  "cash (on_bar d P seen b L) = cash L + cash_moved (bar_fill d P seen b L)
   \<and> signed_shares (holding (on_bar d P seen b L))
       = signed_shares (holding L) + shares_moved (bar_fill d P seen b L)"
proof (cases "bar_fill d P seen b L")
  case None
  then show ?thesis by (simp add: on_bar_def cash_moved_def shares_moved_def)
next
  case (Some f)
  let ?s = "d \<lparr>history = seen @ [b], ctx_holding = holding L, ctx_cash = cash L\<rparr>"
  from Some have app: "applicable (holding L) ?s"
    and fl: "fill P ?s b (cash L) (position_size (holding L)) = Some f"
    by (auto simp: bar_fill_def Let_def split: if_splits)
  show ?thesis
  proof (cases "holding L")
    case Flat
    with app fl show ?thesis using Some
      by (cases ?s)
         (auto simp: on_bar_def Let_def apply_fill_def cash_moved_def shares_moved_def signed_shares_def
               open_position_def dest!: entry_fill_side)
  next
    case (Long pos)
    with app fl show ?thesis using Some
      by (cases ?s)
         (auto simp: on_bar_def Let_def apply_fill_def cash_moved_def shares_moved_def signed_shares_def
               position_size_def dest!: exit_fill_side)
  next
    case (Short pos)
    with app fl show ?thesis using Some
      by (cases ?s)
         (auto simp: on_bar_def Let_def apply_fill_def cash_moved_def shares_moved_def signed_shares_def
               position_size_def dest!: exit_fill_side)
  qed
qed

lemma equity_effect_moves:
  "equity_effect fo b = cash_moved fo + of_int (shares_moved fo) * close b"
  by (simp add: equity_effect_def cash_moved_def shares_moved_def split: option.splits side.splits)

lemma on_bar_equity:
  "mark_to_market (on_bar d P seen b L) b
     = mark_to_market L b + equity_effect (bar_fill d P seen b L) b"
  using on_bar_moves [of d P seen b L]
  by (simp add: mark_to_market_def equity_effect_moves algebra_simps)

lemma equity_step:
  assumes "Suc k < length bars"
  shows "mark_to_market (ledger_after d P c bars (Suc k)) (bars ! Suc k)
           - mark_to_market (ledger_after d P c bars k) (bars ! k)
       = of_int (signed_shares (holding (ledger_after d P c bars k)))
           * (close (bars ! Suc k) - close (bars ! k))
         + equity_effect (fill_at d P c bars (Suc k)) (bars ! Suc k)"
  using on_bar_equity [of d P "take (Suc k) bars" "bars ! Suc k" "ledger_after d P c bars k"]
    ledger_after_step [OF assms, of d P c]
  by (simp add: ledger_before_Suc fill_at_def mark_to_market_def algebra_simps)


lemma position_value_step:
  assumes "Suc k < length bars"
  shows "mark_to_market (ledger_after d P c bars (Suc k)) (bars ! Suc k)
           - mark_to_market (ledger_after d P c bars k) (bars ! k)
       = (of_int (signed_shares (holding (ledger_after d P c bars (Suc k)))) * close (bars ! Suc k)
            - of_int (signed_shares (holding (ledger_after d P c bars k))) * close (bars ! k))
         + cash_moved (fill_at d P c bars (Suc k))"
  using on_bar_moves [of d P "take (Suc k) bars" "bars ! Suc k" "ledger_after d P c bars k"]
    ledger_after_step [OF assms, of d P c]
  by (simp add: ledger_before_Suc fill_at_def mark_to_market_def)

lemma no_fill_step:
  assumes "Suc k < length bars" and "fill_at d P c bars (Suc k) = None"
  shows "mark_to_market (ledger_after d P c bars (Suc k)) (bars ! Suc k)
           - mark_to_market (ledger_after d P c bars k) (bars ! k)
       = of_int (signed_shares (holding (ledger_after d P c bars k)))
           * (close (bars ! Suc k) - close (bars ! k))"
  using equity_step [OF assms(1), of d P c] assms(2) by (simp add: equity_effect_def)

lemma unsigned_when_not_short:
  "long_or_flat h \<Longrightarrow> signed_shares h = position_size h"
  by (cases h) (simp_all add: signed_shares_def position_size_def)

subsection \<open>Cash\<close>

lemma sell_proceeds_cover_fee:
  assumes "fee_within_proceeds P" and "0 \<le> n" and "0 \<le> p"
  shows "0 \<le> cash_effect (mk_fill P Sell b p n)"
proof -
  have np: "0 \<le> of_int n * p" using assms by simp
  from assms(1) consider "fee P = 0" | "scheme P = ProportionalFee" "0 \<le> fee P" "fee P \<le> 1"
    by (auto simp: fee_within_proceeds_def)
  then show ?thesis
  proof cases
    case 1
    then show ?thesis using np
      by (simp add: cash_effect_def mk_fill_def commission_amount_def split: fee_scheme.splits)
  next
    case 2
    have "fee P * (of_int n * p) \<le> 1 * (of_int n * p)"
      using 2 np by (intro mult_right_mono) auto
    then show ?thesis using 2
      by (simp add: cash_effect_def mk_fill_def commission_amount_def mult.assoc)
  qed
qed

lemma on_bar_cash:
  assumes fee: "fee_within_proceeds P"
    and slip: "0 \<le> slippage P" "slippage P < 1" and pos: "0 < close b"
    and cash: "0 \<le> cash L" and before: "long_or_flat (holding L)"
    and after: "long_or_flat (holding (on_bar d P seen b L))"
  shows "0 \<le> cash (on_bar d P seen b L)"
proof -
  let ?s = "d \<lparr>history = seen @ [b], ctx_holding = holding L, ctx_cash = cash L\<rparr>"
  have ch: "cash (on_bar d P seen b L)
              = cash (case bar_fill d P seen b L of None \<Rightarrow> L | Some f \<Rightarrow> apply_fill P signal_exit f L)"
           "holding (on_bar d P seen b L)
              = holding (case bar_fill d P seen b L of None \<Rightarrow> L | Some f \<Rightarrow> apply_fill P signal_exit f L)"
    by (simp_all add: on_bar_def Let_def)
  show ?thesis
  proof (cases "bar_fill d P seen b L")
    case None
    then show ?thesis using cash ch by simp
  next
    case (Some f)
    then have app: "applicable (holding L) ?s"
      and fl: "fill P ?s b (cash L) (position_size (holding L)) = Some f"
      by (auto simp: bar_fill_def Let_def split: if_splits)
    show ?thesis
    proof (cases "holding L")
      case Flat
      from app Flat consider fr where "?s = EnterLong fr" | fr where "?s = EnterShort fr"
        by (cases ?s) auto
      then show ?thesis
      proof cases
        case 1
        with fl have ef: "entry_fill P Buy fr b (cash L) = Some f" by simp
        then have guard: "0 \<le> cash L + cash_effect f"
          by (auto simp: entry_fill_def Let_def split: if_splits)
        have "side f = Buy" using entry_fill_side [OF ef] by simp
        then show ?thesis using Flat Some guard ch by (simp add: apply_fill_def)
      next
        case 2
        with fl have ef: "entry_fill P Sell fr b (cash L) = Some f" by simp
        have "side f = Sell" using entry_fill_side [OF ef] by simp
        then have "holding (on_bar d P seen b L) = Short (open_position f)"
          using Flat Some ch by (simp add: apply_fill_def)
        then show ?thesis using after by simp
      qed
    next
      case (Long p)
      with app have s: "?s = ExitLong" by (cases ?s) auto
      from fl s Long have f: "f = mk_fill P Sell b (adjusted_price P Sell b) (pos_shares p)"
        by (auto simp: exit_fill_def position_size_def split: if_splits)
      have "0 \<le> adjusted_price P Sell b" using slip pos by (simp add: adjusted_price_def)
      moreover have "0 \<le> pos_shares p" using before Long by simp
      ultimately have "0 \<le> cash_effect f"
        unfolding f using fee by (intro sell_proceeds_cover_fee)
      moreover have "side f = Sell" by (simp add: f mk_fill_def)
      ultimately show ?thesis using Long Some cash ch by (simp add: apply_fill_def)
    next
      case (Short p)
      then show ?thesis using before by simp
    qed
  qed
qed

lemma ledger_before_0: "ledger_before d P c bars 0 = initial_ledger c"
  by (simp add: ledger_before_def)

lemma cash_after_bars:
  assumes fee: "fee_within_proceeds P"
    and slip: "0 \<le> slippage P" "slippage P < 1"
    and closes: "list_all (\<lambda>b. 0 < close b) bars"
    and capital: "0 \<le> c"
    and hold: "\<forall>j < length bars. long_or_flat (holding (ledger_after d P c bars j))"
  shows "k < length bars \<Longrightarrow> 0 \<le> cash (ledger_after d P c bars k)"
proof (induction k)
  case 0
  have b: "0 < close (bars ! 0)" using closes 0 by (simp add: list_all_length)
  have "0 \<le> cash (on_bar d P (take 0 bars) (bars ! 0) (ledger_before d P c bars 0))"
    using fee slip b
  proof (rule on_bar_cash)
    show "0 \<le> cash (ledger_before d P c bars 0)"
      using capital by (simp add: ledger_before_0 initial_ledger_def)
    show "long_or_flat (holding (ledger_before d P c bars 0))"
      by (simp add: ledger_before_0 initial_ledger_def)
    show "long_or_flat (holding (on_bar d P (take 0 bars) (bars ! 0) (ledger_before d P c bars 0)))"
      unfolding ledger_after_step [OF 0, of d P c, symmetric] using hold 0 by blast
  qed
  then show ?case unfolding ledger_after_step [OF 0, of d P c, symmetric] .
next
  case (Suc k)
  then have k: "k < length bars" by simp
  have b: "0 < close (bars ! Suc k)" using closes Suc.prems by (simp add: list_all_length)
  have step: "ledger_after d P c bars (Suc k)
      = on_bar d P (take (Suc k) bars) (bars ! Suc k) (ledger_after d P c bars k)"
    using ledger_after_step [OF Suc.prems, of d P c] by (simp add: ledger_before_Suc)
  have "0 \<le> cash (on_bar d P (take (Suc k) bars) (bars ! Suc k) (ledger_after d P c bars k))"
    using fee slip b
  proof (rule on_bar_cash)
    show "0 \<le> cash (ledger_after d P c bars k)" using Suc.IH k by simp
    show "long_or_flat (holding (ledger_after d P c bars k))" using hold k by simp
    show "long_or_flat (holding (on_bar d P (take (Suc k) bars) (bars ! Suc k) (ledger_after d P c bars k)))"
      unfolding step [symmetric] using hold Suc.prems by blast
  qed
  then show ?case unfolding step [symmetric] .
qed

lemma ledger_after_last:
  assumes "bars \<noteq> []"
  shows "ledger_after d P c bars (length bars - 1) = simulate d P [] bars (initial_ledger c)"
  using assms by (simp add: ledger_after_def)

lemma force_close_solvent:
  assumes "fee_within_proceeds P" and "0 < close b" and "solvent L"
  shows "0 \<le> cash (force_close P b L)"
proof (cases "holding L")
  case Flat
  then show ?thesis using assms by (simp add: force_close_def solvent_def)
next
  case (Long p)
  have "0 \<le> pos_shares p" using assms(3) Long by (simp add: solvent_def)
  then have "0 \<le> cash_effect (mk_fill P Sell b (close b) (pos_shares p))"
    using assms by (intro sell_proceeds_cover_fee) auto
  then show ?thesis using Long assms(3)
    by (simp add: force_close_def apply_fill_def solvent_def mk_fill_def)
next
  case (Short p)
  then show ?thesis using assms by (simp add: solvent_def)
qed


subsection \<open>Evaluation\<close>

lemma floor_rat_numeral: "\<lfloor>numeral a / numeral b :: rat\<rfloor> = numeral a div numeral b"
  by (metis floor_divide_of_int_eq of_int_numeral)

lemmas eval_defs = ledger_after_def ledger_before_def crash_bars_def rally_bars_def
      squeeze_bars_def short_then_cover_def buy_and_hold_def initial_ledger_def on_bar_def bar_fill_def
      enter_then_exit_def entry_fill_def exit_fill_def mk_fill_def adjusted_price_def
      commission_amount_def cash_effect_def apply_fill_def open_position_def position_size_def
      params_of_def demo_config_def the_config_def mk_bar_def mark_to_market_def signed_shares_def Let_def
      close_trade_def floor_rat_numeral force_close_def final_ledger_def demo_engine_def fill_at_def
      equity_effect_def guarded_def cash_moved_def

subsection \<open>The ledger's invariants\<close>

text \<open>
  C1 (as amended). For a run that passes validation and every bar \<open>k\<close>: the equity curve has
  one point per bar; the point of bar \<open>k\<close> carries the bar's timestamp and the equity
  \<open>cash + shares * close\<close> of the ledger as it stands once the bar is processed, the shares
  of a short position counted negative (so with the position's own number of shares whenever
  the ledger is flat or long); from one bar to the next the equity changes by the change of
  the position's market value plus the cash effect of the next bar's fill, and by the price
  movement on the shares held alone when that bar has no fill; and in a run whose ledger is
  flat or long after every bar, with a commission that exit proceeds cover, cash is never
  negative, neither after any bar nor after the final close.
\<close>

theorem ledger_invariants:
  assumes "run E cfg bars clock = Inr r" and "k < length bars"
  shows "length (equity_curve r) = length bars
       \<and> equity_curve r ! k =
           \<lparr>ep_timestamp = timestamp (bars ! k),
            equity = cash (ledger_after (decide E) (params_of (fees E) cfg) (fin (initial_capital cfg)) bars k)
                     + of_int (signed_shares (holding
                         (ledger_after (decide E) (params_of (fees E) cfg) (fin (initial_capital cfg)) bars k)))
                       * close (bars ! k)\<rparr>
       \<and> (long_or_flat (holding
              (ledger_after (decide E) (params_of (fees E) cfg) (fin (initial_capital cfg)) bars k)) \<longrightarrow>
            equity (equity_curve r ! k)
              = cash (ledger_after (decide E) (params_of (fees E) cfg) (fin (initial_capital cfg)) bars k)
                + of_int (position_size (holding
                    (ledger_after (decide E) (params_of (fees E) cfg) (fin (initial_capital cfg)) bars k)))
                  * close (bars ! k))
       \<and> (Suc k < length bars \<longrightarrow>
            equity (equity_curve r ! Suc k) - equity (equity_curve r ! k)
              = (of_int (signed_shares (holding
                   (ledger_after (decide E) (params_of (fees E) cfg) (fin (initial_capital cfg)) bars (Suc k))))
                   * close (bars ! Suc k)
                 - of_int (signed_shares (holding
                     (ledger_after (decide E) (params_of (fees E) cfg) (fin (initial_capital cfg)) bars k)))
                   * close (bars ! k))
                + cash_moved
                    (fill_at (decide E) (params_of (fees E) cfg) (fin (initial_capital cfg)) bars (Suc k)))
       \<and> (Suc k < length bars
            \<and> fill_at (decide E) (params_of (fees E) cfg) (fin (initial_capital cfg)) bars (Suc k) = None \<longrightarrow>
            equity (equity_curve r ! Suc k) - equity (equity_curve r ! k)
              = of_int (signed_shares (holding
                  (ledger_after (decide E) (params_of (fees E) cfg) (fin (initial_capital cfg)) bars k)))
                * (close (bars ! Suc k) - close (bars ! k)))
       \<and> ((\<forall>j < length bars. long_or_flat (holding
              (ledger_after (decide E) (params_of (fees E) cfg) (fin (initial_capital cfg)) bars j)))
            \<and> fee_within_proceeds (params_of (fees E) cfg) \<longrightarrow>
            0 \<le> cash (ledger_after (decide E) (params_of (fees E) cfg) (fin (initial_capital cfg)) bars k)
            \<and> 0 \<le> cash (final_ledger E cfg bars))"
proof -
  let ?d = "decide E" and ?P = "params_of (fees E) cfg" and ?c = "fin (initial_capital cfg)"
  from assms(1) have ok: "config_ok cfg" and prices: "list_all positive_prices bars"
    and ne: "bars \<noteq> []"
    and curve: "equity_curve r = equity_history (simulate ?d ?P [] bars (initial_ledger ?c))"
    by (auto simp: run_def Let_def final_ledger_def split: if_splits sum.splits)
  have len: "length (equity_curve r) = length bars"
    by (simp add: curve full_history_length)
  have nth: "\<And>j. j < length bars \<Longrightarrow> equity_curve r ! j =
      \<lparr>ep_timestamp = timestamp (bars ! j), equity = mark_to_market (ledger_after ?d ?P ?c bars j) (bars ! j)\<rparr>"
    by (simp add: curve full_history_nth)
  have literal: "equity (equity_curve r ! k)
      = cash (ledger_after ?d ?P ?c bars k)
        + of_int (position_size (holding (ledger_after ?d ?P ?c bars k))) * close (bars ! k)"
    if "long_or_flat (holding (ledger_after ?d ?P ?c bars k))"
    using nth [OF assms(2)] unsigned_when_not_short [OF that] by (simp add: mark_to_market_def)
  have step: "equity (equity_curve r ! Suc k) - equity (equity_curve r ! k)
        = (of_int (signed_shares (holding (ledger_after ?d ?P ?c bars (Suc k)))) * close (bars ! Suc k)
           - of_int (signed_shares (holding (ledger_after ?d ?P ?c bars k))) * close (bars ! k))
          + cash_moved (fill_at ?d ?P ?c bars (Suc k))"
    if "Suc k < length bars"
    using position_value_step [OF that, of ?d ?P ?c] nth [of k] nth [of "Suc k"] that by simp
  have quiet: "equity (equity_curve r ! Suc k) - equity (equity_curve r ! k)
        = of_int (signed_shares (holding (ledger_after ?d ?P ?c bars k)))
          * (close (bars ! Suc k) - close (bars ! k))"
    if "Suc k < length bars" and "fill_at ?d ?P ?c bars (Suc k) = None"
    using no_fill_step [OF that, of ] nth [of k] nth [of "Suc k"] that by simp
  have solv: "0 \<le> cash (ledger_after ?d ?P ?c bars k) \<and> 0 \<le> cash (final_ledger E cfg bars)"
    if hold: "\<forall>j < length bars. long_or_flat (holding (ledger_after ?d ?P ?c bars j))"
      and fee: "fee_within_proceeds ?P"
  proof -
    have slip: "0 \<le> slippage ?P" "slippage ?P < 1"
      using ok by (simp_all add: config_ok_def params_of_def)
    have capital: "0 \<le> ?c"
      using ok by (simp add: config_ok_def)
    have closes: "list_all (\<lambda>b. 0 < close b) bars"
      using prices by (simp add: list_all_iff positive_prices_def)
    have each: "\<And>j. j < length bars \<Longrightarrow> 0 \<le> cash (ledger_after ?d ?P ?c bars j)"
      using fee slip closes capital hold by (rule cash_after_bars)
    have lastk: "length bars - 1 < length bars" using ne by simp
    have "solvent (ledger_after ?d ?P ?c bars (length bars - 1))"
      using each [OF lastk] hold lastk by (simp add: solvent_def)
    then have b: "solvent (simulate ?d ?P [] bars (initial_ledger ?c))"
      unfolding ledger_after_last [OF ne] .
    have "0 < close (last bars)"
      using closes ne by (simp add: list_all_iff)
    then have "0 \<le> cash (final_ledger E cfg bars)"
      unfolding final_ledger_def using fee b by (intro force_close_solvent)
    then show ?thesis using each [OF assms(2)] by simp
  qed
  show ?thesis
    using len nth [OF assms(2)] literal step quiet solv by (simp add: mark_to_market_def)
qed

lemma the_config_ok: "config_ok the_config"
  by (simp add: config_ok_def the_config_def is_fin_def mk_datetime_def
        days_before_year_def days_before_month_def is_leap_def)

lemma demo_config_ok': "0 < c \<Longrightarrow> config_ok (demo_config c k)"
  using the_config_ok by (simp add: config_ok_def demo_config_def is_fin_def)

lemma run_ok:
  assumes "config_ok cfg" and "bars \<noteq> []" and "list_all positive_prices bars"
    and "strictly_increasing bars"
  shows "\<exists>r. run E cfg bars clock = Inr r
           \<and> data_warnings r = gap_warnings (max_gap_days E) bars @ range_warnings bars @ volume_warnings bars
           \<and> equity_curve r = equity_history (final_ledger E cfg bars)
           \<and> trades r = closed_trades (final_ledger E cfg bars)"
  using assms by (simp add: run_def validate_def Let_def)

text \<open>
  The script's config with a proportional commission of 0, on two bars: a run that buys on
  the first bar and sells on the second, under a strategy that would sell short in a context
  the run never reaches; and a run that buys on the first bar and holds, so that the second
  bar has no fill.
\<close>

theorem ledger_invariants_witness:
  "(\<exists>r. run (demo_engine guarded ProportionalFee) the_config rally_bars (0, 1) = Inr r
       \<and> length (equity_curve r) = 2
       \<and> equity_curve r ! 0 = \<lparr>ep_timestamp = 1, equity = 931 / 10 + 69 * 100\<rparr>
       \<and> equity (equity_curve r ! 1) - equity (equity_curve r ! 0)
           = (0 * 110 - 69 * 100) + 758241 / 100)
   \<and> 0 \<le> cash (ledger_after guarded (params_of ProportionalFee the_config) 7000 rally_bars 0)
   \<and> 0 \<le> cash (final_ledger (demo_engine guarded ProportionalFee) the_config rally_bars)
   \<and> (\<exists>r. run (demo_engine buy_and_hold ProportionalFee) the_config rally_bars (0, 1) = Inr r
       \<and> equity (equity_curve r ! 1) = 931 / 10 + 69 * 110
       \<and> equity (equity_curve r ! 1) - equity (equity_curve r ! 0) = 69 * (110 - 100))"
proof -
  let ?E = "demo_engine guarded ProportionalFee"
  let ?H = "demo_engine buy_and_hold ProportionalFee"
  obtain r where r: "run ?E the_config rally_bars (0, 1) = Inr r"
    using run_ok [OF the_config_ok, where bars = rally_bars and E = ?E and clock = "(0, 1)"]
    by (auto simp: rally_bars_def positive_prices_def strictly_increasing_def mk_bar_def)
  obtain h where h: "run ?H the_config rally_bars (0, 1) = Inr h"
    using run_ok [OF the_config_ok, where bars = rally_bars and E = ?H and clock = "(0, 1)"]
    by (auto simp: rally_bars_def positive_prices_def strictly_increasing_def mk_bar_def)
  have k0: "0 < length rally_bars" and k1: "1 < length rally_bars"
    and two: "Suc 0 < length rally_bars"
    by (simp_all add: rally_bars_def)
  have hold: "\<forall>j < length rally_bars. long_or_flat (holding
      (ledger_after (decide ?E) (params_of (fees ?E) the_config) (fin (initial_capital the_config))
         rally_bars j))"
    by (simp add: eval_defs All_less_Suc)
  have fee: "fee_within_proceeds (params_of (fees ?E) the_config)"
    by (simp add: fee_within_proceeds_def params_of_def the_config_def)
  note inv = ledger_invariants [OF r k0]
  have a: "length (equity_curve r) = 2"
    using inv by (simp add: rally_bars_def)
  have b: "equity_curve r ! 0 = \<lparr>ep_timestamp = 1, equity = 931 / 10 + 69 * 100\<rparr>"
    using inv by (simp add: eval_defs)
  have c: "equity (equity_curve r ! 1) - equity (equity_curve r ! 0)
             = (0 * 110 - 69 * 100) + 758241 / 100"
    using inv two by (auto simp: eval_defs)
  have d: "0 \<le> cash (ledger_after (decide ?E) (params_of (fees ?E) the_config)
                      (fin (initial_capital the_config)) rally_bars 0)
           \<and> 0 \<le> cash (final_ledger ?E the_config rally_bars)"
    using inv hold fee by blast
  then have d': "0 \<le> cash (ledger_after guarded (params_of ProportionalFee the_config) 7000 rally_bars 0)
           \<and> 0 \<le> cash (final_ledger ?E the_config rally_bars)"
    by (simp add: demo_engine_def the_config_def)
  have flat_or_long: "long_or_flat (holding
      (ledger_after (decide ?H) (params_of (fees ?H) the_config) (fin (initial_capital the_config))
         rally_bars 1))"
    by (simp add: eval_defs)
  have quiet: "fill_at (decide ?H) (params_of (fees ?H) the_config) (fin (initial_capital the_config))
      rally_bars (Suc 0) = None"
    by (simp add: eval_defs)
  have e: "equity (equity_curve h ! 1) = 931 / 10 + 69 * 110"
    using ledger_invariants [OF h k1] flat_or_long by (simp add: eval_defs)
  have f: "equity (equity_curve h ! 1) - equity (equity_curve h ! 0) = 69 * (110 - 100)"
    using ledger_invariants [OF h k0] two quiet by (auto simp: eval_defs)
  show ?thesis using r a b c d' h e f by blast
qed

text \<open>
  Where the claim fails. Cash goes negative: with a flat commission of 10, one share bought at
  90 with a capital of 100 and sold at 5 leaves \<open>0 + 5 - 10 = -5\<close>; and without any
  commission, ten shares sold short at 10 and covered at 30 leave \<open>200 - 300 = -100\<close>. And
  while those ten shares are short, the equity recorded for the bar is 100, not
  \<open>cash + shares * close = 200 + 10 * 10 = 300\<close>.
\<close>

theorem ledger_counterexample:
  "(\<exists>r. run (demo_engine enter_then_exit FlatFee) (demo_config 100 10) crash_bars (0, 1) = Inr r)
   \<and> cash (ledger_after (decide (demo_engine enter_then_exit FlatFee))
              (params_of (fees (demo_engine enter_then_exit FlatFee)) (demo_config 100 10))
              (fin (initial_capital (demo_config 100 10))) crash_bars 1) = - 5
   \<and> (\<exists>r. run (demo_engine short_then_cover FlatFee) (demo_config 100 0) squeeze_bars (0, 1) = Inr r
          \<and> equity (equity_curve r ! 0) = 100)
   \<and> cash (ledger_after (decide (demo_engine short_then_cover FlatFee))
              (params_of (fees (demo_engine short_then_cover FlatFee)) (demo_config 100 0))
              (fin (initial_capital (demo_config 100 0))) squeeze_bars 0)
       + of_int (position_size (holding (ledger_after (decide (demo_engine short_then_cover FlatFee))
              (params_of (fees (demo_engine short_then_cover FlatFee)) (demo_config 100 0))
              (fin (initial_capital (demo_config 100 0))) squeeze_bars 0)))
         * close (squeeze_bars ! 0) = 300
   \<and> cash (ledger_after (decide (demo_engine short_then_cover FlatFee))
              (params_of (fees (demo_engine short_then_cover FlatFee)) (demo_config 100 0))
              (fin (initial_capital (demo_config 100 0))) squeeze_bars 1) = - 100"
proof -
  have a: "\<exists>r. run (demo_engine enter_then_exit FlatFee) (demo_config 100 10) crash_bars (0, 1) = Inr r"
    using run_ok [where cfg = "demo_config 100 10" and bars = crash_bars
        and E = "demo_engine enter_then_exit FlatFee" and clock = "(0, 1)"]
      demo_config_ok' [of 100 10]
    by (auto simp: crash_bars_def positive_prices_def strictly_increasing_def mk_bar_def)
  obtain r where r: "run (demo_engine short_then_cover FlatFee) (demo_config 100 0) squeeze_bars (0, 1) = Inr r"
    and curve: "equity_curve r
        = equity_history (final_ledger (demo_engine short_then_cover FlatFee) (demo_config 100 0) squeeze_bars)"
    using run_ok [where cfg = "demo_config 100 0" and bars = squeeze_bars
        and E = "demo_engine short_then_cover FlatFee" and clock = "(0, 1)"]
      demo_config_ok' [of 100 0]
    by (auto simp: squeeze_bars_def positive_prices_def strictly_increasing_def mk_bar_def)
  have "equity (equity_curve r ! 0) = 100"
    unfolding curve by (simp add: eval_defs simulate.simps)
  then have b: "\<exists>r. run (demo_engine short_then_cover FlatFee) (demo_config 100 0) squeeze_bars (0, 1) = Inr r
          \<and> equity (equity_curve r ! 0) = 100"
    using r by blast
  show ?thesis using a b by (simp add: eval_defs)
qed

subsection \<open>The Execution Simulator's contract\<close>



end
